theory Spec2Isabelle
  imports Complex_Main "HOL-Library.Sublist"
begin

section \<open>Python values\<close>

text \<open>
  A Python \<open>str\<close> is a sequence of Unicode code points, so it is modelled as a list of
  natural numbers and not as an Isabelle \<open>string\<close> (whose characters are bytes): the
  program's literals are Cyrillic. \<open>ascii\<close> turns an ASCII literal into its code points.
\<close>

type_synonym pystr = "nat list"

definition ascii :: "string \<Rightarrow> pystr" where
  "ascii s = map of_char s"

text \<open>
  The values a parsed JSON document (and hence a reply) can take. A \<open>dict\<close> is an
  association list read with \<open>map_of\<close>. A float is represented by the number it denotes;
  the program only ever tests it for truth.
\<close>

datatype pyval =
    PNone
  | PBool bool
  | PInt int
  | PFloat real
  | PStr pystr
  | PList "pyval list"
  | PDict "(pystr \<times> pyval) list"

text \<open>Truth value testing, as \<open>if response:\<close> and \<open>result and ...\<close> do it.\<close>

fun truthy :: "pyval \<Rightarrow> bool" where
  "truthy PNone = False"
| "truthy (PBool b) = b"
| "truthy (PInt i) = (i \<noteq> 0)"
| "truthy (PFloat x) = (x \<noteq> 0)"
| "truthy (PStr s) = (s \<noteq> [])"
| "truthy (PList xs) = (xs \<noteq> [])"
| "truthy (PDict kvs) = (kvs \<noteq> [])"

text \<open>
  The exceptions that reach the program. \<open>KeyboardInterrupt\<close> derives from
  \<open>BaseException\<close> only, so \<open>except Exception\<close> does not catch it. In \<open>requests\<close>,
  \<open>ConnectTimeout\<close> derives from both \<open>ConnectionError\<close> and \<open>Timeout\<close>. The built-in
  \<open>ConnectionError\<close> raised by the constructor carries the address of its message.
\<close>

datatype pyexc =
    KeyboardInterrupt
  | RequestsReadTimeout
  | RequestsConnectTimeout
  | RequestsConnectionError
  | JSONDecodeError
  | AttributeError
  | ConnectionError pystr
  | OtherException

fun is_Exception :: "pyexc \<Rightarrow> bool" where
  "is_Exception KeyboardInterrupt = False"
| "is_Exception _ = True"

fun is_requests_Timeout :: "pyexc \<Rightarrow> bool" where
  "is_requests_Timeout RequestsReadTimeout = True"
| "is_requests_Timeout RequestsConnectTimeout = True"
| "is_requests_Timeout _ = False"

fun is_requests_ConnectionError :: "pyexc \<Rightarrow> bool" where
  "is_requests_ConnectionError RequestsConnectionError = True"
| "is_requests_ConnectionError RequestsConnectTimeout = True"
| "is_requests_ConnectionError _ = False"

subsection \<open>String operations\<close>

text \<open>\<open>w in s\<close> on strings: \<open>w\<close> occurs in \<open>s\<close> as a contiguous substring.\<close>

fun str_in :: "pystr \<Rightarrow> pystr \<Rightarrow> bool" where
  "str_in w [] = (w = [])"
| "str_in w (c # cs) = (prefix w (c # cs) \<or> str_in w cs)"

text \<open>
  \<open>str.lower()\<close>. The mapping of a code point is taken from the Unicode table for ASCII,
  Latin-1, U+0130 (which lowers to two code points), the Kelvin and Angstrom signs and the
  basic Cyrillic block U+0400 to U+042F; every other code point is modelled as unchanged.
\<close>

definition lower_cp :: "nat \<Rightarrow> pystr" where
  "lower_cp c =
     (if 65 \<le> c \<and> c \<le> 90 then [c + 32]
      else if 192 \<le> c \<and> c \<le> 222 \<and> c \<noteq> 215 then [c + 32]
      else if c = 304 then [105, 775]
      else if 1024 \<le> c \<and> c \<le> 1039 then [c + 80]
      else if 1040 \<le> c \<and> c \<le> 1071 then [c + 32]
      else if c = 8490 then [107]
      else if c = 8491 then [229]
      else [c])"

definition str_lower :: "pystr \<Rightarrow> pystr" where
  "str_lower s = concat (map lower_cp s)"

text \<open>
  \<open>s.replace(old, new)\<close>: the occurrences of \<open>old\<close> are replaced from left to right,
  without overlap. For an empty \<open>old\<close> Python puts \<open>new\<close> around every code point.
\<close>

function replace_scan :: "pystr \<Rightarrow> pystr \<Rightarrow> pystr \<Rightarrow> pystr" where
  "replace_scan old new [] = []"
| "replace_scan old new (c # cs) =
     (if old \<noteq> [] \<and> prefix old (c # cs)
      then new @ replace_scan old new (drop (length old) (c # cs))
      else c # replace_scan old new cs)"
  by pat_completeness auto
termination
  by (relation "measure (\<lambda>(old, new, s). length s)") auto

definition str_replace :: "pystr \<Rightarrow> pystr \<Rightarrow> pystr \<Rightarrow> pystr" where
  "str_replace old new s =
     (if old = [] then new @ concat (map (\<lambda>c. c # new) s) else replace_scan old new s)"

text \<open>
  \<open>d.get(key, default)\<close>: only a \<open>dict\<close> has the method; on any other value the attribute
  lookup raises \<open>AttributeError\<close>.
\<close>

definition dict_get :: "pyval \<Rightarrow> pystr \<Rightarrow> pyval \<Rightarrow> pyexc + pyval" where
  "dict_get d k dflt =
     (case d of
        PDict kvs \<Rightarrow> Inr (case map_of kvs k of Some v \<Rightarrow> v | None \<Rightarrow> dflt)
      | _ \<Rightarrow> Inl AttributeError)"

subsection \<open>Environment and configuration\<close>

type_synonym environ = "pystr \<Rightarrow> pystr option"

text \<open>\<open>os.getenv(key, default)\<close>: the variable's value when it is set, also when empty.\<close>

definition os_getenv :: "environ \<Rightarrow> pystr \<Rightarrow> pystr \<Rightarrow> pystr" where
  "os_getenv env k dflt = (case env k of Some v \<Rightarrow> v | None \<Rightarrow> dflt)"

text \<open>\<open>x or y\<close> for an argument \<open>x\<close> that is \<open>None\<close> or a string: \<open>x\<close> when it is truthy.\<close>

definition or_else :: "pystr option \<Rightarrow> pystr \<Rightarrow> pystr" where
  "or_else x y = (case x of None \<Rightarrow> y | Some s \<Rightarrow> if s \<noteq> [] then s else y)"

definition OLLAMA_BASE_URL :: pystr where
  "OLLAMA_BASE_URL = ascii ''OLLAMA_BASE_URL''"

definition OLLAMA_MODEL :: pystr where
  "OLLAMA_MODEL = ascii ''OLLAMA_MODEL''"

definition default_url :: pystr where
  "default_url = ascii ''http://localhost:11434/api''"

definition default_model :: pystr where
  "default_model = ascii ''llama3.2''"

definition resolve_url :: "environ \<Rightarrow> pystr option \<Rightarrow> pystr" where
  "resolve_url env url_arg = or_else url_arg (os_getenv env OLLAMA_BASE_URL default_url)"

definition resolve_model :: "environ \<Rightarrow> pystr option \<Rightarrow> pystr" where
  "resolve_model env model_arg = or_else model_arg (os_getenv env OLLAMA_MODEL default_model)"

subsection \<open>The outside world\<close>

text \<open>
  An HTTP call either returns a response or raises. Of a response the program reads the
  status code, the raw text and the parsed body; \<open>resp_json\<close> is \<open>None\<close> when the text
  is not JSON and \<open>response.json()\<close> raises.
\<close>

record response =
  status_code :: int
  resp_text :: pystr
  resp_json :: "pyval option"

datatype http_outcome = Response response | Raises pyexc

type_synonym http_get = "pystr \<Rightarrow> http_outcome"
type_synonym http_post = "pystr \<Rightarrow> pyval \<Rightarrow> http_outcome"

text \<open>
  What the recogniser's \<open>listen\<close> and \<open>recognize_google\<close> do, and what \<open>input\<close> does.
  The microphone itself is taken to open.
\<close>

datatype capture_outcome = Captured | WaitTimeoutError | CaptureRaises pyexc

datatype recognize_outcome =
    Recognized pystr
  | UnknownValueError
  | RequestError pystr
  | RecognizeRaises pyexc

datatype input_outcome = Enter | InputRaises pyexc

text \<open>
  Everything observable: requests sent, the microphone session, the blocking prompt, and
  one event for each print statement, carrying the values the statement interpolates.
\<close>

datatype event =
    HttpGet pystr
  | HttpPost pystr pyval
  | MicOpen
  | Calibrate
  | Capture
  | Recognize
  | MicClose
  | Prompt
  | PrintSpeak
  | PrintProcessing
  | PrintRecognized pystr
  | PrintWaitTimeout
  | PrintUnknownValue
  | PrintRequestError pystr
  | PrintSending pystr
  | PrintApiError int
  | PrintLLMTimeout
  | PrintLLMError pyexc
  | PrintAnswer pyval
  | PrintBanner pystr pystr
  | PrintGoodbye
  | PrintFinished
  | PrintFatal pyexc
  | PrintQuery pystr
  | PrintBody pystr
  | PrintRule
  | PrintCannotConnect pystr
  | PrintTestError pyexc
  | PrintTestBanner pystr pystr
  | PrintTestHeader nat nat
  | PrintDashes
  | PrintBlank

section \<open>The voice agent\<close>

text \<open>
  The agent object holds the two resolved settings (its recogniser, which no method
  replaces, is left out). Every method takes the object and returns it with its result and
  the events of the call, so that a write to a field would be visible. \<open>VoiceAgent_init\<close>
  is \<open>__init__\<close> and \<open>check_ollama_available\<close> is \<open>_check_ollama_available\<close>; the
  \<open>main\<close> of the diagnostic script is \<open>test_main\<close> below.
\<close>

record VoiceAgent =
  ollama_url :: pystr
  model :: pystr

definition probe_url :: "pystr \<Rightarrow> pystr" where
  "probe_url base = str_replace (ascii ''/api'') [] base @ ascii ''/api/tags''"

definition check_ollama_available ::
  "http_get \<Rightarrow> VoiceAgent \<Rightarrow> (pyexc + bool) \<times> VoiceAgent \<times> event list" where
  "check_ollama_available get self =
     (let url = probe_url (ollama_url self) in
      case get url of
        Response r \<Rightarrow> (Inr (status_code r = 200), self, [HttpGet url])
      | Raises e \<Rightarrow>
          if is_Exception e then (Inr False, self, [HttpGet url])
          else (Inl e, self, [HttpGet url]))"

definition VoiceAgent_init ::
  "environ \<Rightarrow> http_get \<Rightarrow> pystr option \<Rightarrow> pystr option \<Rightarrow> (pyexc + VoiceAgent) \<times> event list" where
  "VoiceAgent_init env get url_arg model_arg =
     (let self = \<lparr>ollama_url = resolve_url env url_arg, model = resolve_model env model_arg\<rparr> in
      case check_ollama_available get self of
        (Inl e, self', t) \<Rightarrow> (Inl e, t)
      | (Inr ok, self', t) \<Rightarrow>
          if \<not> ok then (Inl (ConnectionError (ollama_url self')), t) else (Inr self', t))"

definition listen ::
  "capture_outcome \<Rightarrow> recognize_outcome \<Rightarrow> VoiceAgent \<Rightarrow>
     (pyexc + pystr option) \<times> VoiceAgent \<times> event list" where
  "listen cap rec self =
     (let pre = [PrintSpeak, MicOpen, Calibrate, Capture] in
      case cap of
        WaitTimeoutError \<Rightarrow> (Inr None, self, pre @ [PrintWaitTimeout, MicClose])
      | CaptureRaises e \<Rightarrow> (Inl e, self, pre @ [MicClose])
      | Captured \<Rightarrow>
          (case rec of
             Recognized utt \<Rightarrow>
               (Inr (Some utt), self,
                pre @ [PrintProcessing, Recognize, PrintRecognized utt, MicClose])
           | UnknownValueError \<Rightarrow>
               (Inr None, self, pre @ [PrintProcessing, Recognize, PrintUnknownValue, MicClose])
           | RequestError msg \<Rightarrow>
               (Inr None, self,
                pre @ [PrintProcessing, Recognize, PrintRequestError msg, MicClose])
           | RecognizeRaises e \<Rightarrow>
               (Inl e, self, pre @ [PrintProcessing, Recognize, MicClose])))"

definition chat_payload :: "pystr \<Rightarrow> pystr \<Rightarrow> pyval" where
  "chat_payload m utt =
     PDict [(ascii ''model'', PStr m),
            (ascii ''messages'',
               PList [PDict [(ascii ''role'', PStr (ascii ''user'')),
                             (ascii ''content'', PStr utt)]]),
            (ascii ''stream'', PBool False)]"

definition no_answer :: pystr where
  "no_answer = [1053, 1077, 1090, 32, 1086, 1090, 1074, 1077, 1090, 1072]"

text \<open>\<open>response.json()\<close> followed by \<open>result.get("message", {}).get("content", ...)\<close>.\<close>

definition extract_content :: "response \<Rightarrow> pyexc + pyval" where
  "extract_content r =
     (case resp_json r of
        None \<Rightarrow> Inl JSONDecodeError
      | Some result \<Rightarrow>
          (case dict_get result (ascii ''message'') (PDict []) of
             Inl e \<Rightarrow> Inl e
           | Inr msg \<Rightarrow> dict_get msg (ascii ''content'') (PStr no_answer)))"

text \<open>The two \<open>except\<close> clauses of \<open>get_llm_response\<close>, tried in the source's order.\<close>

definition llm_except ::
  "pyexc \<Rightarrow> VoiceAgent \<Rightarrow> event list \<Rightarrow> (pyexc + pyval) \<times> VoiceAgent \<times> event list" where
  "llm_except e self pre =
     (if is_requests_Timeout e then (Inr PNone, self, pre @ [PrintLLMTimeout])
      else if is_Exception e then (Inr PNone, self, pre @ [PrintLLMError e])
      else (Inl e, self, pre))"

definition get_llm_response ::
  "http_post \<Rightarrow> VoiceAgent \<Rightarrow> pystr \<Rightarrow> (pyexc + pyval) \<times> VoiceAgent \<times> event list" where
  "get_llm_response post self utt =
     (let payload = chat_payload (model self) utt;
          url = ollama_url self @ ascii ''/chat'';
          pre = [PrintSending (model self), HttpPost url payload] in
      case post url payload of
        Raises e \<Rightarrow> llm_except e self pre
      | Response r \<Rightarrow>
          if status_code r \<noteq> 200 then (Inr PNone, self, pre @ [PrintApiError (status_code r)])
          else (case extract_content r of
                  Inl e \<Rightarrow> llm_except e self pre
                | Inr response_text \<Rightarrow> (Inr response_text, self, pre)))"

text \<open>What one pass of the loop meets: the capture, the recognition, the chat endpoint
  and the answer to the prompt.\<close>

record iter_env =
  env_capture :: capture_outcome
  env_recognize :: recognize_outcome
  env_post :: http_post
  env_input :: input_outcome

definition process_voice_command ::
  "iter_env \<Rightarrow> VoiceAgent \<Rightarrow> (pyexc + pyval) \<times> VoiceAgent \<times> event list" where
  "process_voice_command io self =
     (case listen (env_capture io) (env_recognize io) self of
        (Inl e, self1, t1) \<Rightarrow> (Inl e, self1, t1)
      | (Inr None, self1, t1) \<Rightarrow> (Inr PNone, self1, t1)
      | (Inr (Some utt), self1, t1) \<Rightarrow>
          (case get_llm_response (env_post io) self1 utt of
             (Inl e, self2, t2) \<Rightarrow> (Inl e, self2, t1 @ t2)
           | (Inr response, self2, t2) \<Rightarrow>
               if truthy response
               then (Inr response, self2, t1 @ t2 @ [PrintAnswer response])
               else (Inr PNone, self2, t1 @ t2)))"

subsection \<open>The command loop\<close>

definition exit_words :: "pystr list" where
  "exit_words =
     [[1074, 1099, 1093, 1086, 1076], ascii ''exit'', ascii ''quit'', [1089, 1090, 1086, 1087]]"

text \<open>
  The condition \<open>result and any(word in result.lower() for word in [...])\<close>. A truthy
  result that is not a string has no \<open>lower\<close>.
\<close>

definition exit_check :: "pyval \<Rightarrow> pyexc + bool" where
  "exit_check result =
     (if \<not> truthy result then Inr False
      else case result of
             PStr s \<Rightarrow> Inr (list_ex (\<lambda>w. str_in w (str_lower s)) exit_words)
           | _ \<Rightarrow> Inl AttributeError)"

datatype loop_step = Continue | Break | Raise pyexc

definition loop_body :: "iter_env \<Rightarrow> VoiceAgent \<Rightarrow> loop_step \<times> VoiceAgent \<times> event list" where
  "loop_body io agent =
     (case process_voice_command io agent of
        (Inl e, a, t) \<Rightarrow> (Raise e, a, t)
      | (Inr result, a, t) \<Rightarrow>
          (case exit_check result of
             Inl e \<Rightarrow> (Raise e, a, t)
           | Inr True \<Rightarrow> (Break, a, t @ [PrintGoodbye])
           | Inr False \<Rightarrow>
               (case env_input io of
                  Enter \<Rightarrow> (Continue, a, t @ [Prompt])
                | InputRaises e \<Rightarrow> (Raise e, a, t @ [Prompt]))))"

text \<open>
  \<open>while True\<close> may run for ever: the loop is run on a finite script of passes, and
  \<open>Pending\<close> says that the script ended with the loop still running.
\<close>

datatype run_result = Returned | Raised pyexc | Pending

fun run_loop :: "iter_env list \<Rightarrow> VoiceAgent \<Rightarrow> run_result \<times> VoiceAgent \<times> event list" where
  "run_loop [] agent = (Pending, agent, [])"
| "run_loop (io # ios) agent =
     (case loop_body io agent of
        (Continue, a, t) \<Rightarrow> (case run_loop ios a of (r, a', t') \<Rightarrow> (r, a', t @ t'))
      | (Break, a, t) \<Rightarrow> (Returned, a, t)
      | (Raise e, a, t) \<Rightarrow> (Raised e, a, t))"

text \<open>The two \<open>except\<close> clauses of \<open>main\<close>.\<close>

definition main_except :: "pyexc \<Rightarrow> event list \<Rightarrow> run_result \<times> event list" where
  "main_except e t =
     (if e = KeyboardInterrupt then (Returned, t @ [PrintFinished])
      else if is_Exception e then (Returned, t @ [PrintFatal e])
      else (Raised e, t))"

definition main :: "environ \<Rightarrow> http_get \<Rightarrow> iter_env list \<Rightarrow> run_result \<times> event list" where
  "main env get ios =
     (let banner = [PrintBanner (os_getenv env OLLAMA_BASE_URL default_url)
                                (os_getenv env OLLAMA_MODEL default_model)] in
      case VoiceAgent_init env get None None of
        (Inl e, t) \<Rightarrow> main_except e (banner @ t)
      | (Inr agent, t) \<Rightarrow>
          (case run_loop ios agent of
             (Raised e, a, t') \<Rightarrow> main_except e (banner @ t @ t')
           | (r, a, t') \<Rightarrow> (r, banner @ t @ t')))"

section \<open>The diagnostic entry point\<close>

text \<open>The two \<open>except\<close> clauses of \<open>test_text_to_llm\<close>, tried in the source's order.\<close>

definition test_except :: "pyexc \<Rightarrow> pystr \<Rightarrow> event list \<Rightarrow> (pyexc + pyval) \<times> event list" where
  "test_except e url pre =
     (if is_requests_ConnectionError e then (Inr PNone, pre @ [PrintCannotConnect url])
      else if is_Exception e then (Inr PNone, pre @ [PrintTestError e])
      else (Inl e, pre))"

definition test_text_to_llm ::
  "environ \<Rightarrow> http_post \<Rightarrow> pystr \<Rightarrow> pystr option \<Rightarrow> pystr option \<Rightarrow>
     (pyexc + pyval) \<times> event list" where
  "test_text_to_llm env post utt url_arg model_arg =
     (let base = resolve_url env url_arg;
          m = resolve_model env model_arg;
          payload = chat_payload m utt;
          url = base @ ascii ''/chat'';
          pre = [PrintQuery utt, PrintSending m, HttpPost url payload] in
      case post url payload of
        Raises e \<Rightarrow> test_except e base pre
      | Response r \<Rightarrow>
          if status_code r \<noteq> 200
          then (Inr PNone, pre @ [PrintApiError (status_code r), PrintBody (resp_text r)])
          else (case extract_content r of
                  Inl e \<Rightarrow> test_except e base pre
                | Inr response_text \<Rightarrow>
                    (Inr PNone, pre @ [PrintAnswer response_text, PrintRule])))"

definition test_queries :: "pystr list" where
  "test_queries =
     [[1087, 1086, 1089, 1095, 1080, 1090, 1072, 1081, 32, 1076, 1074, 1072, 32, 1087, 1083,
       1102, 1089, 32, 1076, 1074, 1072],
      [1076, 1072, 1081, 32, 1086, 1087, 1088, 1077, 1076, 1077, 1083, 1077, 1085, 1080, 1077,
       32, 1080, 1089, 1082, 1091, 1089, 1089, 1090, 1074, 1077, 1085, 1085, 1086, 1075, 1086,
       32, 1080, 1085, 1090, 1077, 1083, 1083, 1077, 1082, 1090, 1072, 32, 1074, 32, 1086, 1076,
       1085, 1086, 1084, 32, 1087, 1088, 1077, 1076, 1083, 1086, 1078, 1077, 1085, 1080, 1080],
      [1089, 1082, 1072, 1078, 1080, 32, 1082, 1086, 1088, 1086, 1090, 1082, 1080, 1081, 32,
       1072, 1085, 1077, 1082, 1076, 1086, 1090]]"

text \<open>
  The \<open>for\<close> loop over \<open>enumerate(test_queries, 1)\<close>; \<open>post i\<close> is what the chat endpoint
  does at the request of test \<open>i\<close>, and \<open>n\<close> is \<open>len(test_queries)\<close>.
\<close>

fun run_tests ::
  "environ \<Rightarrow> (nat \<Rightarrow> http_post) \<Rightarrow> nat \<Rightarrow> nat \<Rightarrow> pystr list \<Rightarrow> run_result \<times> event list" where
  "run_tests env post n i [] = (Returned, [])"
| "run_tests env post n i (query # rest) =
     (case test_text_to_llm env (post i) query None None of
        (Inl e, t) \<Rightarrow> (Raised e, [PrintTestHeader i n, PrintDashes] @ t)
      | (Inr v, t) \<Rightarrow>
          (case run_tests env post n (Suc i) rest of
             (r, t') \<Rightarrow> (r, [PrintTestHeader i n, PrintDashes] @ t @ [PrintBlank] @ t')))"

definition test_main :: "environ \<Rightarrow> (nat \<Rightarrow> http_post) \<Rightarrow> run_result \<times> event list" where
  "test_main env post =
     (case run_tests env post (length test_queries) 1 test_queries of
        (r, t) \<Rightarrow>
          (r, PrintTestBanner (os_getenv env OLLAMA_BASE_URL default_url)
                              (os_getenv env OLLAMA_MODEL default_model) # t))"

section \<open>Notions of the specification and sample inputs\<close>

text \<open>
  The nested path \<open>message.content\<close> of a parsed body, as the specification reads it:
  the body is an object, its \<open>message\<close> is an object, and that object has \<open>content\<close>.
\<close>

definition message_content :: "pyval \<Rightarrow> pyval option" where
  "message_content body =
     (case body of
        PDict kvs \<Rightarrow>
          (case map_of kvs (ascii ''message'') of
             Some (PDict m) \<Rightarrow> map_of m (ascii ''content'')
           | _ \<Rightarrow> None)
      | _ \<Rightarrow> None)"

text \<open>The forms the printed result of one diagnostic query takes.\<close>

definition result_block :: "event list \<Rightarrow> bool" where
  "result_block b =
     (case b of
        [PrintAnswer v, PrintRule] \<Rightarrow> True
      | [PrintApiError st, PrintBody raw] \<Rightarrow> True
      | [PrintCannotConnect url] \<Rightarrow> True
      | [PrintTestError e] \<Rightarrow> True
      | _ \<Rightarrow> False)"

text \<open>Everything the diagnostic loop emits for query \<open>q\<close> as test \<open>i\<close> of three, around
  the result \<open>b\<close>.\<close>

definition test_block :: "environ \<Rightarrow> nat \<Rightarrow> pystr \<Rightarrow> event list \<Rightarrow> event list" where
  "test_block env i q b =
     [PrintTestHeader i 3, PrintDashes, PrintQuery q, PrintSending (resolve_model env None),
      HttpPost (resolve_url env None @ ascii ''/chat'') (chat_payload (resolve_model env None) q)]
     @ b @ [PrintBlank]"

text \<open>An agent with the default settings, stub endpoints and passes of the loop.\<close>

definition agent0 :: VoiceAgent where
  "agent0 = \<lparr>ollama_url = default_url, model = default_model\<rparr>"

definition no_env :: environ where
  "no_env = (\<lambda>k. None)"

definition content_body :: "pyval \<Rightarrow> pyval" where
  "content_body v = PDict [(ascii ''message'', PDict [(ascii ''content'', v)])]"

definition reply_with :: "int \<Rightarrow> pystr \<Rightarrow> pyval option \<Rightarrow> http_post" where
  "reply_with st raw body =
     (\<lambda>url payload. Response \<lparr>status_code = st, resp_text = raw, resp_json = body\<rparr>)"

definition get_refused :: http_get where
  "get_refused = (\<lambda>url. Raises RequestsConnectionError)"

definition get_ok :: http_get where
  \<open>get_ok = (\<lambda>url. Response \<lparr>status_code = 200, resp_text = ascii ''{"models":[]}'',
                               resp_json = Some (PDict [(ascii ''models'', PList [])])\<rparr>)\<close>

definition io_silence :: iter_env where
  "io_silence =
     \<lparr>env_capture = WaitTimeoutError, env_recognize = UnknownValueError,
      env_post = (\<lambda>url payload. Raises RequestsConnectionError), env_input = Enter\<rparr>"

definition io_reply :: "pystr \<Rightarrow> iter_env" where
  \<open>io_reply s =
     \<lparr>env_capture = Captured, env_recognize = Recognized (ascii ''hi''),
      env_post = reply_with 200 (ascii ''{"message":{"content":"'' @ s @ ascii ''"}}'')
                   (Some (content_body (PStr s))),
      env_input = Enter\<rparr>\<close>

definition io_offline :: iter_env where
  "io_offline =
     \<lparr>env_capture = Captured, env_recognize = Recognized (ascii ''hi''),
      env_post = (\<lambda>url payload. Raises RequestsConnectionError), env_input = Enter\<rparr>"

definition env_remote :: environ where
  "env_remote =
     (\<lambda>k. if k = OLLAMA_BASE_URL then Some (ascii ''http://10.0.0.5:11434/api'') else None)"

definition env_api_host :: environ where
  "env_api_host =
     (\<lambda>k. if k = OLLAMA_BASE_URL then Some (ascii ''http://api.example.com/api'') else None)"

definition post_four :: "nat \<Rightarrow> http_post" where
  \<open>post_four i =
     reply_with 200 (ascii ''{"message":{"content":"4"}}'') (Some (content_body (PStr (ascii ''4''))))\<close>

definition post_null_message :: http_post where
  \<open>post_null_message =
     reply_with 200 (ascii ''{"message":null}'') (Some (PDict [(ascii ''message'', PNone)]))\<close>

definition post_empty_object :: http_post where
  "post_empty_object = reply_with 200 (ascii ''{}'') (Some (PDict []))"

definition post_500 :: http_post where
  "post_500 = reply_with 500 (ascii ''Internal Server Error'') None"

lemmas sample_defs =
  ascii_def agent0_def no_env_def content_body_def reply_with_def get_refused_def get_ok_def
  io_silence_def io_reply_def io_offline_def env_remote_def env_api_host_def post_four_def
  post_null_message_def
  post_empty_object_def post_500_def default_url_def default_model_def OLLAMA_BASE_URL_def
  OLLAMA_MODEL_def

lemmas agent_defs =
  process_voice_command_def listen_def get_llm_response_def llm_except_def extract_content_def
  dict_get_def chat_payload_def loop_body_def exit_check_def exit_words_def str_lower_def
  lower_cp_def check_ollama_available_def VoiceAgent_init_def probe_url_def str_replace_def
  resolve_url_def resolve_model_def or_else_def os_getenv_def main_def main_except_def
  test_text_to_llm_def test_except_def no_answer_def message_content_def

section \<open>Properties\<close>

subsection \<open>Strings\<close>

lemma str_in_sublist: "str_in w s = sublist w s"
  by (induction s) (simp_all add: sublist_Cons_right)

lemma str_in_iff: "str_in w s \<longleftrightarrow> (\<exists>p q. s = p @ w @ q)"
  by (simp add: str_in_sublist sublist_def)

text \<open>Replacing changes nothing where \<open>old\<close> does not occur, and an \<open>old\<close> that occurs
  only at the very end is replaced there.\<close>

lemma replace_scan_absent: "\<not> sublist old s \<Longrightarrow> replace_scan old new s = s"
  by (induction s) (simp_all add: sublist_Cons_right)

lemma prefix_of_long_front:
  assumes "prefix w (x @ y)" and "length w \<le> length x"
  shows "prefix w x"
  using assms by (auto simp: prefix_append)

lemma replace_scan_at_end:
  assumes "old \<noteq> []" and "\<not> sublist old (p @ butlast old)"
  shows "replace_scan old new (p @ old) = p @ new"
  using assms(2)
proof (induction p)
  case Nil
  from assms(1) obtain c cs where "old = c # cs" by (cases old) auto
  then show ?case by simp
next
  case (Cons c p)
  have np: "\<not> prefix old (c # p @ old)"
  proof
    assume "prefix old (c # p @ old)"
    then have "prefix old ((c # p @ butlast old) @ [last old])"
      using assms(1) by simp
    moreover have "length old \<le> length (c # p @ butlast old)" by simp
    ultimately have "prefix old (c # p @ butlast old)"
      by (rule prefix_of_long_front)
    then have "sublist old (c # p @ butlast old)" by (rule prefix_imp_sublist)
    with Cons.prems show False by simp
  qed
  from Cons.prems have "\<not> sublist old (p @ butlast old)"
    by (simp add: sublist_Cons_right)
  then have "replace_scan old new (p @ old) = p @ new" by (rule Cons.IH)
  with np show ?case by simp
qed

lemma probe_url_plain:
  assumes "\<not> str_in (ascii ''/api'') (p @ ascii ''/ap'')"
  shows "probe_url (p @ ascii ''/api'') = p @ ascii ''/api/tags''"
proof -
  have b: "butlast (ascii ''/api'') = ascii ''/ap''" by (simp add: ascii_def)
  have n: "\<not> sublist (ascii ''/api'') (p @ butlast (ascii ''/api''))"
    using assms by (simp add: b str_in_sublist)
  have "ascii ''/api'' \<noteq> []" by (simp add: ascii_def)
  then have "replace_scan (ascii ''/api'') [] (p @ ascii ''/api'') = p @ []"
    using n by (rule replace_scan_at_end)
  then show ?thesis
    by (simp add: probe_url_def str_replace_def ascii_def)
qed

lemma str_lower_append: "str_lower (a @ b) = str_lower a @ str_lower b"
  by (simp add: str_lower_def)

subsection \<open>The agent object is never written\<close>

lemma llm_except_self: "llm_except e a pre = (r, a', t) \<Longrightarrow> a' = a"
  by (auto simp: llm_except_def split: if_splits)

lemma get_llm_response_self: "get_llm_response post a utt = (r, a', t) \<Longrightarrow> a' = a"
  by (auto simp: get_llm_response_def Let_def split: http_outcome.splits if_splits sum.splits dest: llm_except_self)

lemma listen_self: "listen c r a = (x, a', t) \<Longrightarrow> a' = a"
  by (auto simp: listen_def Let_def split: capture_outcome.splits recognize_outcome.splits)

lemma process_voice_command_self: "process_voice_command io a = (r, a', t) \<Longrightarrow> a' = a"
  unfolding process_voice_command_def
  by (auto split: prod.splits sum.splits option.splits if_splits dest: listen_self get_llm_response_self)

lemma loop_body_self: "loop_body io a = (s, a', t) \<Longrightarrow> a' = a"
  unfolding loop_body_def
  by (auto split: prod.splits sum.splits bool.splits input_outcome.splits dest: process_voice_command_self)

lemma run_loop_self: "run_loop ios a = (r, a', t) \<Longrightarrow> a' = a"
proof (induction ios arbitrary: a r a' t)
  case Nil
  then show ?case by simp
next
  case (Cons io ios)
  obtain s b u where lb: "loop_body io a = (s, b, u)" by (cases "loop_body io a")
  then have b: "b = a" by (rule loop_body_self)
  show ?case
  proof (cases s)
    case Continue
    obtain r2 a2 t2 where rl: "run_loop ios a = (r2, a2, t2)" by (cases "run_loop ios a")
    from Cons.IH[OF rl] have "a2 = a" .
    with Cons.prems lb b Continue rl show ?thesis by simp
  next
    case Break
    with Cons.prems lb b show ?thesis by simp
  next
    case (Raise e)
    with Cons.prems lb b show ?thesis by simp
  qed
qed

subsection \<open>Replies\<close>

lemma process_voice_command_truthy:
  "process_voice_command io a = (Inr v, a', t) \<Longrightarrow> v = PNone \<or> truthy v"
  unfolding process_voice_command_def
  by (auto split: prod.splits sum.splits option.splits if_splits)

lemma extract_absent:
  assumes "resp_json r = Some (PDict kvs)"
    and "map_of kvs (ascii ''message'') = None \<or>
         (\<exists>m. map_of kvs (ascii ''message'') = Some (PDict m) \<and> map_of m (ascii ''content'') = None)"
  shows "extract_content r = Inr (PStr no_answer)"
  using assms by (auto simp: extract_content_def dict_get_def)

lemma extract_present:
  assumes "resp_json r = Some body" and "message_content body = Some v"
  shows "extract_content r = Inr v"
  using assms
  by (auto simp: extract_content_def dict_get_def message_content_def split: pyval.splits option.splits)

lemma get_llm_response_ok:
  assumes "post (ollama_url a @ ascii ''/chat'') (chat_payload (model a) utt) = Response r"
    and "status_code r = 200" and "extract_content r = Inr v"
  shows "get_llm_response post a utt =
           (Inr v, a, [PrintSending (model a), HttpPost (ollama_url a @ ascii ''/chat'') (chat_payload (model a) utt)])"
  using assms by (simp add: get_llm_response_def Let_def)

lemma test_text_to_llm_block:
  assumes "\<forall>url p e. post url p = Raises e \<longrightarrow> is_Exception e"
  shows "\<exists>b. result_block b \<and>
           test_text_to_llm env post q None None =
             (Inr PNone,
              [PrintQuery q, PrintSending (resolve_model env None),
               HttpPost (resolve_url env None @ ascii ''/chat'') (chat_payload (resolve_model env None) q)] @ b)"
proof (cases "post (resolve_url env None @ ascii ''/chat'') (chat_payload (resolve_model env None) q)")
  case (Raises e)
  with assms have "is_Exception e" by blast
  with Raises show ?thesis
    by (simp add: test_text_to_llm_def test_except_def result_block_def Let_def)
next
  case (Response r)
  show ?thesis
  proof (cases "status_code r = 200")
    case False
    with Response show ?thesis
      by (simp add: test_text_to_llm_def result_block_def Let_def)
  next
    case True
    show ?thesis
    proof (cases "extract_content r")
      case (Inr v)
      with Response True show ?thesis
        by (simp add: test_text_to_llm_def result_block_def Let_def)
    next
      case (Inl e)
      then have "e = JSONDecodeError \<or> e = AttributeError"
        by (auto simp: extract_content_def dict_get_def split: option.splits pyval.splits sum.splits)
      with Inl Response True show ?thesis
        by (auto simp: test_text_to_llm_def test_except_def result_block_def Let_def)
    qed
  qed
qed


section \<open>The claims\<close>

text \<open>
  C1, as amended. When a pass of the voice loop produces no reply (\<open>listen\<close> returned
  \<open>None\<close>, or the LLM call did), the loop does not end; it still issues the blocking
  confirmation prompt and goes on once the prompt is answered. The prompt is issued in
  every pass whose result passes the exit check without a match, with or without a reply.
\<close>

theorem no_reply_still_prompts:
  "(\<forall>a' t. process_voice_command io a = (Inr PNone, a', t) \<longrightarrow>
      loop_body io a =
        ((case env_input io of Enter \<Rightarrow> Continue | InputRaises e \<Rightarrow> Raise e), a', t @ [Prompt]))
   \<and> (Prompt \<in> set (snd (snd (loop_body io a))) \<longleftrightarrow>
        (\<exists>v. fst (process_voice_command io a) = Inr v \<and> exit_check v = Inr False))"
proof -
  have noP: "Prompt \<notin> set (snd (snd (process_voice_command io a)))"
    by (auto simp: process_voice_command_def listen_def get_llm_response_def llm_except_def Let_def
             split: capture_outcome.splits recognize_outcome.splits http_outcome.splits
                    sum.splits if_splits)
  obtain r b t where p: "process_voice_command io a = (r, b, t)"
    by (cases "process_voice_command io a")
  with noP have nt: "Prompt \<notin> set t" by simp
  have two: "Prompt \<in> set (snd (snd (loop_body io a))) \<longleftrightarrow>
        (\<exists>v. fst (process_voice_command io a) = Inr v \<and> exit_check v = Inr False)"
    using p nt
    by (auto simp: loop_body_def split: sum.splits bool.splits input_outcome.splits)
  have one: "\<forall>a' t. process_voice_command io a = (Inr PNone, a', t) \<longrightarrow>
      loop_body io a =
        ((case env_input io of Enter \<Rightarrow> Continue | InputRaises e \<Rightarrow> Raise e), a', t @ [Prompt])"
    by (simp add: loop_body_def exit_check_def split: input_outcome.splits)
  show ?thesis using one two by blast
qed

text \<open>The theorem at a pass in which the chat endpoint cannot be reached.\<close>

theorem no_reply_still_prompts_witness:
  "process_voice_command io_offline agent0 =
     (Inr PNone, agent0,
      [PrintSpeak, MicOpen, Calibrate, Capture, PrintProcessing, Recognize,
       PrintRecognized (ascii ''hi''), MicClose, PrintSending default_model,
       HttpPost (default_url @ ascii ''/chat'') (chat_payload default_model (ascii ''hi'')),
       PrintLLMError RequestsConnectionError])
   \<and> loop_body io_offline agent0 =
     (Continue, agent0,
      [PrintSpeak, MicOpen, Calibrate, Capture, PrintProcessing, Recognize,
       PrintRecognized (ascii ''hi''), MicClose, PrintSending default_model,
       HttpPost (default_url @ ascii ''/chat'') (chat_payload default_model (ascii ''hi'')),
       PrintLLMError RequestsConnectionError, Prompt])"
proof -
  have h: "process_voice_command io_offline agent0 =
     (Inr PNone, agent0,
      [PrintSpeak, MicOpen, Calibrate, Capture, PrintProcessing, Recognize,
       PrintRecognized (ascii ''hi''), MicClose, PrintSending default_model,
       HttpPost (default_url @ ascii ''/chat'') (chat_payload default_model (ascii ''hi'')),
       PrintLLMError RequestsConnectionError])"
    by (simp add: process_voice_command_def listen_def get_llm_response_def llm_except_def
                  io_offline_def agent0_def)
  have i: "env_input io_offline = Enter" by (simp add: io_offline_def)
  show ?thesis
    using h i no_reply_still_prompts [of io_offline agent0] by simp
qed

text \<open>
  C1 as stated fails: when nobody speaks, \<open>process_voice_command\<close> returns \<open>None\<close> and
  the pass still ends with the confirmation prompt.
\<close>

theorem no_reply_prompt_counterexample:
  "process_voice_command io_silence agent0 =
     (Inr PNone, agent0, [PrintSpeak, MicOpen, Calibrate, Capture, PrintWaitTimeout, MicClose])
   \<and> loop_body io_silence agent0 =
     (Continue, agent0,
      [PrintSpeak, MicOpen, Calibrate, Capture, PrintWaitTimeout, MicClose, Prompt])"
  by (simp add: loop_body_def process_voice_command_def listen_def io_silence_def exit_check_def)

text \<open>
  C2, as amended. For every reply string the voice loop presents, the loop ends if and
  only if the lower-cased reply contains one of the four exit words as a substring. The
  words are the Cyrillic words of code points 1074 1099 1093 1086 1076 and
  1089 1090 1086 1087, and the Latin words exit and quit; the Latin word stop is not among
  them. A reply containing, in any letter case, the Cyrillic word 1089 1090 1086 1087
  ends the loop.
\<close>

theorem break_iff_exit_word:
  assumes "process_voice_command io a = (Inr (PStr r), a', t)"
  shows "(fst (loop_body io a) = Break \<longleftrightarrow>
            (\<exists>w \<in> set exit_words. \<exists>p q. str_lower r = p @ w @ q))
         \<and> exit_words =
             [[1074, 1099, 1093, 1086, 1076], [101, 120, 105, 116], [113, 117, 105, 116],
              [1089, 1090, 1086, 1087]]
         \<and> (\<forall>x p q. r = p @ x @ q \<and> str_lower x = [1089, 1090, 1086, 1087]
               \<longrightarrow> fst (loop_body io a) = Break)"
proof -
  from assms have ne: "r \<noteq> []"
    by (auto dest: process_voice_command_truthy)
  have iff: "fst (loop_body io a) = Break \<longleftrightarrow> list_ex (\<lambda>w. str_in w (str_lower r)) exit_words"
    using assms ne
    by (auto simp: loop_body_def exit_check_def split: input_outcome.splits bool.splits)
  have words: "exit_words =
      [[1074, 1099, 1093, 1086, 1076], [101, 120, 105, 116], [113, 117, 105, 116],
       [1089, 1090, 1086, 1087]]"
    by (simp add: exit_words_def ascii_def)
  have one: "fst (loop_body io a) = Break \<longleftrightarrow>
      (\<exists>w \<in> set exit_words. \<exists>p q. str_lower r = p @ w @ q)"
    unfolding iff by (simp only: list_ex_iff str_in_iff)
  have three: "fst (loop_body io a) = Break"
    if "r = p @ x @ q" "str_lower x = [1089, 1090, 1086, 1087]" for x p q
  proof -
    have "str_lower r = str_lower p @ [1089, 1090, 1086, 1087] @ str_lower q"
      using that by (simp add: str_lower_append)
    moreover have "[1089, 1090, 1086, 1087] \<in> set exit_words"
      by (simp add: words)
    ultimately show ?thesis unfolding one by blast
  qed
  show ?thesis using one words three by blast
qed

text \<open>The theorem at the reply "Please EXIT".\<close>

theorem break_iff_exit_word_witness:
  "fst (process_voice_command (io_reply (ascii ''Please EXIT'')) agent0)
     = Inr (PStr (ascii ''Please EXIT''))
   \<and> (fst (loop_body (io_reply (ascii ''Please EXIT'')) agent0) = Break \<longleftrightarrow>
        (\<exists>w \<in> set exit_words. \<exists>p q. str_lower (ascii ''Please EXIT'') = p @ w @ q))
   \<and> fst (loop_body (io_reply (ascii ''Please EXIT'')) agent0) = Break"
proof -
  obtain t where h: "process_voice_command (io_reply (ascii ''Please EXIT'')) agent0
      = (Inr (PStr (ascii ''Please EXIT'')), agent0, t)"
    by (simp add: sample_defs agent_defs)
  have b: "fst (loop_body (io_reply (ascii ''Please EXIT'')) agent0) = Break"
    by (simp add: sample_defs agent_defs)
  show ?thesis
    using h b break_iff_exit_word [OF h] by simp
qed

text \<open>
  C2 as stated fails: the reply "stop" contains the Latin word stop, is presented, and the
  loop goes on to the prompt instead of ending.
\<close>

theorem latin_stop_counterexample:
  "fst (process_voice_command (io_reply (ascii ''stop'')) agent0) = Inr (PStr (ascii ''stop''))
   \<and> str_in (ascii ''stop'') (str_lower (ascii ''stop''))
   \<and> fst (loop_body (io_reply (ascii ''stop'')) agent0) = Continue"
  by (simp add: sample_defs agent_defs)

text \<open>
  C3. If the availability probe is negative (the GET raises an exception that
  \<open>except Exception\<close> catches, a connection error among them, or returns a status other
  than 200), constructing the agent raises \<open>ConnectionError\<close> after the single GET, and
  \<open>main\<close> returns with no event of the microphone: nothing is captured. If the probe
  returns status 200, construction succeeds with the resolved settings.
\<close>

theorem construction_fails_fast:
  "((case get (probe_url (resolve_url env u)) of
       Response r \<Rightarrow> status_code r \<noteq> 200 | Raises e \<Rightarrow> is_Exception e) \<longrightarrow>
      VoiceAgent_init env get u m =
        (Inl (ConnectionError (resolve_url env u)), [HttpGet (probe_url (resolve_url env u))]))
   \<and> ((case get (probe_url (resolve_url env None)) of
       Response r \<Rightarrow> status_code r \<noteq> 200 | Raises e \<Rightarrow> is_Exception e) \<longrightarrow>
      main env get ios =
        (Returned,
         [PrintBanner (os_getenv env OLLAMA_BASE_URL default_url)
                      (os_getenv env OLLAMA_MODEL default_model),
          HttpGet (probe_url (resolve_url env None)),
          PrintFatal (ConnectionError (resolve_url env None))]))
   \<and> ((case get (probe_url (resolve_url env u)) of
       Response r \<Rightarrow> status_code r = 200 | Raises e \<Rightarrow> False) \<longrightarrow>
      VoiceAgent_init env get u m =
        (Inr \<lparr>ollama_url = resolve_url env u, model = resolve_model env m\<rparr>,
         [HttpGet (probe_url (resolve_url env u))]))"
  by (auto simp: VoiceAgent_init_def check_ollama_available_def main_def main_except_def Let_def
           split: http_outcome.splits)

text \<open>The theorem at a service that refuses the connection, and at one that answers.\<close>

theorem construction_fails_fast_witness:
  "VoiceAgent_init no_env get_refused None None =
     (Inl (ConnectionError (ascii ''http://localhost:11434/api'')),
      [HttpGet (ascii ''http://localhost:11434/api/tags'')])
   \<and> main no_env get_refused [io_silence] =
     (Returned,
      [PrintBanner (ascii ''http://localhost:11434/api'') (ascii ''llama3.2''),
       HttpGet (ascii ''http://localhost:11434/api/tags''),
       PrintFatal (ConnectionError (ascii ''http://localhost:11434/api''))])
   \<and> VoiceAgent_init no_env get_ok None None =
     (Inr agent0, [HttpGet (ascii ''http://localhost:11434/api/tags'')])"
  using construction_fails_fast [of get_refused no_env None None "[io_silence]"]
        construction_fails_fast [of get_ok no_env None None "[]"]
  by (simp add: sample_defs resolve_url_def resolve_model_def or_else_def os_getenv_def
                probe_url_def str_replace_def)

text \<open>
  C4, as amended. For every chat-endpoint response with status 200 whose JSON body is an
  object in which \<open>message\<close> is absent, or is itself an object without \<open>content\<close>,
  \<open>get_llm_response\<close> returns the fixed placeholder string, which is not empty; and for
  every status-200 body with \<open>message.content\<close> equal to a string \<open>X\<close> it returns
  exactly \<open>X\<close>.
\<close>

theorem reply_text_extraction:
  assumes "post (ollama_url a @ ascii ''/chat'') (chat_payload (model a) utt) = Response r"
    and "status_code r = 200" and "resp_json r = Some (PDict kvs)"
  shows "(map_of kvs (ascii ''message'') = None \<or>
          (\<exists>m. map_of kvs (ascii ''message'') = Some (PDict m) \<and>
               map_of m (ascii ''content'') = None)
            \<longrightarrow> fst (get_llm_response post a utt) = Inr (PStr no_answer))
       \<and> (\<forall>X. message_content (PDict kvs) = Some (PStr X)
            \<longrightarrow> fst (get_llm_response post a utt) = Inr (PStr X))
       \<and> no_answer \<noteq> []"
  using assms
  by (auto simp: get_llm_response_ok extract_absent extract_present no_answer_def)

text \<open>The theorem at the body \<open>{}\<close>.\<close>

theorem reply_text_extraction_witness:
  "post_empty_object (ollama_url agent0 @ ascii ''/chat'') (chat_payload (model agent0) (ascii ''hi''))
     = Response \<lparr>status_code = 200, resp_text = ascii ''{}'', resp_json = Some (PDict [])\<rparr>
   \<and> fst (get_llm_response post_empty_object agent0 (ascii ''hi'')) = Inr (PStr no_answer)"
proof -
  have h: "post_empty_object (ollama_url agent0 @ ascii ''/chat'')
             (chat_payload (model agent0) (ascii ''hi''))
     = Response \<lparr>status_code = 200, resp_text = ascii ''{}'', resp_json = Some (PDict [])\<rparr>"
    by (simp add: post_empty_object_def reply_with_def)
  show ?thesis
    using h reply_text_extraction
            [where post = post_empty_object and a = agent0 and utt = "ascii ''hi''"
               and r = "\<lparr>status_code = 200, resp_text = ascii ''{}'', resp_json = Some (PDict [])\<rparr>"
               and kvs = "[]"]
    by simp
qed

text \<open>
  C4 as stated fails: the body \<open>{"message": null}\<close> has no \<open>message.content\<close>, and
  \<open>get_llm_response\<close> returns \<open>None\<close> after the notice of an error, not the placeholder.
\<close>

theorem message_not_object_counterexample:
  "message_content (PDict [(ascii ''message'', PNone)]) = None
   \<and> get_llm_response post_null_message agent0 (ascii ''hi'') =
       (Inr PNone, agent0,
        [PrintSending default_model,
         HttpPost (default_url @ ascii ''/chat'') (chat_payload default_model (ascii ''hi'')),
         PrintLLMError AttributeError])"
  by (simp add: message_content_def get_llm_response_def extract_content_def dict_get_def
                llm_except_def post_null_message_def reply_with_def agent0_def)

text \<open>
  C5. For every chat-endpoint response with a status other than 200, \<open>get_llm_response\<close>
  returns \<open>None\<close> without raising, after printing the status code; the diagnostic
  \<open>test_text_to_llm\<close> returns as well, after printing the status code and the raw body.
\<close>

theorem error_status_gives_None:
  assumes "status_code r \<noteq> 200"
  shows "(post (ollama_url a @ ascii ''/chat'') (chat_payload (model a) utt) = Response r \<longrightarrow>
            get_llm_response post a utt =
              (Inr PNone, a,
               [PrintSending (model a),
                HttpPost (ollama_url a @ ascii ''/chat'') (chat_payload (model a) utt),
                PrintApiError (status_code r)]))
       \<and> (post (resolve_url env u @ ascii ''/chat'') (chat_payload (resolve_model env m) utt)
            = Response r \<longrightarrow>
            test_text_to_llm env post utt u m =
              (Inr PNone,
               [PrintQuery utt, PrintSending (resolve_model env m),
                HttpPost (resolve_url env u @ ascii ''/chat'')
                         (chat_payload (resolve_model env m) utt),
                PrintApiError (status_code r), PrintBody (resp_text r)]))"
  using assms by (simp add: get_llm_response_def test_text_to_llm_def Let_def)

text \<open>The theorem at a status 500.\<close>

theorem error_status_gives_None_witness:
  "get_llm_response post_500 agent0 (ascii ''hi'') =
     (Inr PNone, agent0,
      [PrintSending default_model,
       HttpPost (default_url @ ascii ''/chat'') (chat_payload default_model (ascii ''hi'')),
       PrintApiError 500])
   \<and> test_text_to_llm no_env post_500 (ascii ''hi'') None None =
     (Inr PNone,
      [PrintQuery (ascii ''hi''), PrintSending default_model,
       HttpPost (default_url @ ascii ''/chat'') (chat_payload default_model (ascii ''hi'')),
       PrintApiError 500, PrintBody (ascii ''Internal Server Error'')])"
proof -
  have h: "status_code \<lparr>status_code = 500, resp_text = ascii ''Internal Server Error'',
                        resp_json = None\<rparr> \<noteq> 200"
    by simp
  have u: "resolve_url no_env None = default_url" and m: "resolve_model no_env None = default_model"
    by (simp_all add: resolve_url_def resolve_model_def or_else_def os_getenv_def no_env_def)
  show ?thesis
    using error_status_gives_None [OF h, of post_500 agent0 "ascii ''hi''" no_env None None]
    by (simp add: u m post_500_def reply_with_def agent0_def)
qed

text \<open>
  C6, as amended. For every combination of constructor override and environment value,
  the resolved base address and the resolved model each equal the explicit override when
  it is provided and not empty, otherwise the environment variable's value when it is set
  (also when it is empty), otherwise the defaults; and no run of the command loop changes
  the two values of the agent.
\<close>

theorem configuration_resolution:
  assumes "VoiceAgent_init env get u m = (Inr agent, t)"
  shows "(\<forall>s. u = Some s \<and> s \<noteq> [] \<longrightarrow> ollama_url agent = s)
       \<and> (\<forall>v. (u = None \<or> u = Some []) \<and> env (ascii ''OLLAMA_BASE_URL'') = Some v
               \<longrightarrow> ollama_url agent = v)
       \<and> ((u = None \<or> u = Some []) \<and> env (ascii ''OLLAMA_BASE_URL'') = None
             \<longrightarrow> ollama_url agent = ascii ''http://localhost:11434/api'')
       \<and> (\<forall>s. m = Some s \<and> s \<noteq> [] \<longrightarrow> model agent = s)
       \<and> (\<forall>v. (m = None \<or> m = Some []) \<and> env (ascii ''OLLAMA_MODEL'') = Some v
               \<longrightarrow> model agent = v)
       \<and> ((m = None \<or> m = Some []) \<and> env (ascii ''OLLAMA_MODEL'') = None
             \<longrightarrow> model agent = ascii ''llama3.2'')
       \<and> (\<forall>ios r a' t'. run_loop ios agent = (r, a', t') \<longrightarrow> a' = agent)"
proof -
  from assms have ag: "agent = \<lparr>ollama_url = resolve_url env u, model = resolve_model env m\<rparr>"
    by (auto simp: VoiceAgent_init_def check_ollama_available_def Let_def
             split: http_outcome.splits if_splits)
  have "\<forall>ios r a' t'. run_loop ios agent = (r, a', t') \<longrightarrow> a' = agent"
    using run_loop_self by blast
  then show ?thesis
    unfolding ag
    by (auto simp: resolve_url_def resolve_model_def or_else_def os_getenv_def
                   OLLAMA_BASE_URL_def OLLAMA_MODEL_def default_url_def default_model_def)
qed

text \<open>The theorem at an address from the environment and a model given to the constructor.\<close>

theorem configuration_resolution_witness:
  "VoiceAgent_init env_remote get_ok None (Some (ascii ''mistral'')) =
     (Inr \<lparr>ollama_url = ascii ''http://10.0.0.5:11434/api'', model = ascii ''mistral''\<rparr>,
      [HttpGet (ascii ''http://10.0.0.5:11434/api/tags'')])
   \<and> env_remote (ascii ''OLLAMA_BASE_URL'') = Some (ascii ''http://10.0.0.5:11434/api'')
   \<and> fst (snd (run_loop [io_silence, io_offline]
                 \<lparr>ollama_url = ascii ''http://10.0.0.5:11434/api'', model = ascii ''mistral''\<rparr>))
       = \<lparr>ollama_url = ascii ''http://10.0.0.5:11434/api'', model = ascii ''mistral''\<rparr>"
proof -
  have h: "VoiceAgent_init env_remote get_ok None (Some (ascii ''mistral'')) =
     (Inr \<lparr>ollama_url = ascii ''http://10.0.0.5:11434/api'', model = ascii ''mistral''\<rparr>,
      [HttpGet (ascii ''http://10.0.0.5:11434/api/tags'')])"
    by (simp add: sample_defs agent_defs)
  have e: "env_remote (ascii ''OLLAMA_BASE_URL'') = Some (ascii ''http://10.0.0.5:11434/api'')"
    by (simp add: env_remote_def OLLAMA_BASE_URL_def)
  obtain r a' t' where l: "run_loop [io_silence, io_offline]
      \<lparr>ollama_url = ascii ''http://10.0.0.5:11434/api'', model = ascii ''mistral''\<rparr> = (r, a', t')"
    by (cases "run_loop [io_silence, io_offline]
      \<lparr>ollama_url = ascii ''http://10.0.0.5:11434/api'', model = ascii ''mistral''\<rparr>")
  from configuration_resolution [OF h] l
  have "a' = \<lparr>ollama_url = ascii ''http://10.0.0.5:11434/api'', model = ascii ''mistral''\<rparr>"
    by blast
  with h e l show ?thesis by simp
qed

text \<open>
  C6 as stated fails: with empty strings given as overrides and nothing in the
  environment, the agent gets the defaults and not the overrides.
\<close>

theorem empty_override_counterexample:
  "VoiceAgent_init no_env get_ok (Some []) (Some []) =
     (Inr \<lparr>ollama_url = ascii ''http://localhost:11434/api'', model = ascii ''llama3.2''\<rparr>,
      [HttpGet (ascii ''http://localhost:11434/api/tags'')])
   \<and> ascii ''http://localhost:11434/api'' \<noteq> [] \<and> ascii ''llama3.2'' \<noteq> []"
  by (simp add: sample_defs agent_defs)

text \<open>
  What the availability probe does, for every base address: it issues a single GET, to
  the address with all its occurrences of \<open>/api\<close> removed and \<open>/api/tags\<close> appended
  (for an address \<open>p/api\<close> with no other occurrence of \<open>/api\<close> that is \<open>p/api/tags\<close>);
  it returns \<open>True\<close> if and only if the call returns a response of status 200, and
  \<open>False\<close> on any other status and on an exception caught by \<open>except Exception\<close>.
\<close>

lemma check_ollama_available_result:
  "snd (snd (check_ollama_available get a)) =
      [HttpGet (str_replace (ascii ''/api'') [] (ollama_url a) @ ascii ''/api/tags'')]
   \<and> (\<forall>p. ollama_url a = p @ ascii ''/api'' \<and> \<not> str_in (ascii ''/api'') (p @ ascii ''/ap'')
          \<longrightarrow> snd (snd (check_ollama_available get a)) = [HttpGet (p @ ascii ''/api/tags'')])
   \<and> (fst (check_ollama_available get a) = Inr True \<longleftrightarrow>
        (\<exists>r. get (str_replace (ascii ''/api'') [] (ollama_url a) @ ascii ''/api/tags'') = Response r
             \<and> status_code r = 200))
   \<and> (\<forall>r. get (str_replace (ascii ''/api'') [] (ollama_url a) @ ascii ''/api/tags'') = Response r
           \<and> status_code r \<noteq> 200 \<longrightarrow> fst (check_ollama_available get a) = Inr False)
   \<and> (\<forall>e. get (str_replace (ascii ''/api'') [] (ollama_url a) @ ascii ''/api/tags'') = Raises e
           \<and> is_Exception e \<longrightarrow> fst (check_ollama_available get a) = Inr False)"
proof -
  have t: "snd (snd (check_ollama_available get a)) = [HttpGet (probe_url (ollama_url a))]"
    by (auto simp: check_ollama_available_def Let_def split: http_outcome.splits)
  have u: "probe_url (ollama_url a)
             = str_replace (ascii ''/api'') [] (ollama_url a) @ ascii ''/api/tags''"
    by (simp add: probe_url_def)
  have one: "snd (snd (check_ollama_available get a)) =
      [HttpGet (str_replace (ascii ''/api'') [] (ollama_url a) @ ascii ''/api/tags'')]"
    using t u by simp
  have two: "snd (snd (check_ollama_available get a)) = [HttpGet (p @ ascii ''/api/tags'')]"
    if "ollama_url a = p @ ascii ''/api''" "\<not> str_in (ascii ''/api'') (p @ ascii ''/ap'')" for p
    using that t by (simp add: probe_url_plain)
  have three: "fst (check_ollama_available get a) = Inr True \<longleftrightarrow>
        (\<exists>r. get (str_replace (ascii ''/api'') [] (ollama_url a) @ ascii ''/api/tags'') = Response r
             \<and> status_code r = 200)"
    by (auto simp: check_ollama_available_def probe_url_def Let_def split: http_outcome.splits)
  have four: "fst (check_ollama_available get a) = Inr False"
    if "get (str_replace (ascii ''/api'') [] (ollama_url a) @ ascii ''/api/tags'') = Response r"
       "status_code r \<noteq> 200" for r
    using that by (simp add: check_ollama_available_def probe_url_def Let_def)
  have five: "fst (check_ollama_available get a) = Inr False"
    if "get (str_replace (ascii ''/api'') [] (ollama_url a) @ ascii ''/api/tags'') = Raises e"
       "is_Exception e" for e
    using that by (simp add: check_ollama_available_def probe_url_def Let_def)
  show ?thesis using one two three four five by blast
qed

text \<open>At the default address the probe goes to the tags endpoint of the local service.\<close>

lemma check_ollama_available_default:
  "check_ollama_available get_refused agent0 =
     (Inr False, agent0, [HttpGet (ascii ''http://localhost:11434/api/tags'')])
   \<and> check_ollama_available get_ok agent0 =
     (Inr True, agent0, [HttpGet (ascii ''http://localhost:11434/api/tags'')])"
  by (simp add: sample_defs check_ollama_available_def probe_url_def str_replace_def)

text \<open>
  C7. The claim has the probe issue its single GET to the base address with its \<open>/api\<close>
  part removed and \<open>/api/tags\<close> appended, for every configured base address. The code
  removes every occurrence of \<open>/api\<close>, not the final one only. With the base address
  \<open>http://api.example.com/api\<close> in the environment, the probe of the constructor goes to
  \<open>http:/.example.com/api/tags\<close>, which is not \<open>http://api.example.com/api/tags\<close>;
  the service there answers 200 and the agent is constructed, and its chat request then
  goes to \<open>http://api.example.com/api/chat\<close>, on the host the probe never asked.
\<close>

theorem probe_url_removes_every_occurrence:
  "VoiceAgent_init env_api_host get_ok None None =
     (Inr \<lparr>ollama_url = ascii ''http://api.example.com/api'', model = ascii ''llama3.2''\<rparr>,
      [HttpGet (ascii ''http:/.example.com/api/tags'')])
   \<and> check_ollama_available get_ok
        \<lparr>ollama_url = ascii ''http://api.example.com/api'', model = ascii ''llama3.2''\<rparr> =
     (Inr True,
      \<lparr>ollama_url = ascii ''http://api.example.com/api'', model = ascii ''llama3.2''\<rparr>,
      [HttpGet (ascii ''http:/.example.com/api/tags'')])
   \<and> ascii ''http:/.example.com/api/tags'' \<noteq> ascii ''http://api.example.com/api/tags''
   \<and> snd (snd (get_llm_response (post_four 1)
        \<lparr>ollama_url = ascii ''http://api.example.com/api'', model = ascii ''llama3.2''\<rparr>
        (ascii ''hi''))) =
     [PrintSending (ascii ''llama3.2''),
      HttpPost (ascii ''http://api.example.com/api/chat'')
               (chat_payload (ascii ''llama3.2'') (ascii ''hi''))]"
  by (simp add: sample_defs agent_defs)

text \<open>
  C8. Diagnostic mode runs the three literal queries in order: for each it prints the
  header of the test, sends one chat request with that query and prints one result, and
  after the third it returns, with no confirmation prompt and no check for exit words.
  This holds whatever each call meets (an answer, an error status, an unreadable body, a
  connection failure or another exception that \<open>except Exception\<close> catches).
\<close>

theorem diagnostic_run:
  assumes "\<forall>i url p e. post i url p = Raises e \<longrightarrow> is_Exception e"
  shows "\<exists>b1 b2 b3. result_block b1 \<and> result_block b2 \<and> result_block b3 \<and>
           test_main env post =
             (Returned,
              PrintTestBanner (os_getenv env OLLAMA_BASE_URL default_url)
                              (os_getenv env OLLAMA_MODEL default_model)
              # test_block env 1 (test_queries ! 0) b1
              @ test_block env 2 (test_queries ! 1) b2
              @ test_block env 3 (test_queries ! 2) b3)
           \<and> length test_queries = 3"
proof -
  have ok: "\<forall>url p e. post i url p = Raises e \<longrightarrow> is_Exception e" for i
    using assms by blast
  obtain q1 q2 q3 where qs: "test_queries = [q1, q2, q3]"
    by (simp add: test_queries_def)
  obtain b1 where b1: "result_block b1"
    "test_text_to_llm env (post 1) q1 None None =
       (Inr PNone, [PrintQuery q1, PrintSending (resolve_model env None),
          HttpPost (resolve_url env None @ ascii ''/chat'')
                   (chat_payload (resolve_model env None) q1)] @ b1)"
    using test_text_to_llm_block[OF ok[of 1], where env = env and q = q1] by blast
  obtain b2 where b2: "result_block b2"
    "test_text_to_llm env (post 2) q2 None None =
       (Inr PNone, [PrintQuery q2, PrintSending (resolve_model env None),
          HttpPost (resolve_url env None @ ascii ''/chat'')
                   (chat_payload (resolve_model env None) q2)] @ b2)"
    using test_text_to_llm_block[OF ok[of 2], where env = env and q = q2] by blast
  obtain b3 where b3: "result_block b3"
    "test_text_to_llm env (post 3) q3 None None =
       (Inr PNone, [PrintQuery q3, PrintSending (resolve_model env None),
          HttpPost (resolve_url env None @ ascii ''/chat'')
                   (chat_payload (resolve_model env None) q3)] @ b3)"
    using test_text_to_llm_block[OF ok[of 3], where env = env and q = q3] by blast
  have nth: "test_queries ! 0 = q1" "test_queries ! 1 = q2" "test_queries ! 2 = q3"
    and len: "length test_queries = 3"
    by (simp_all add: qs)
  have tm: "test_main env post =
             (Returned,
              PrintTestBanner (os_getenv env OLLAMA_BASE_URL default_url)
                              (os_getenv env OLLAMA_MODEL default_model)
              # test_block env 1 q1 b1 @ test_block env 2 q2 b2 @ test_block env 3 q3 b3)"
    unfolding test_main_def qs
    using b1(2) b2(2) b3(2)
    by (simp add: test_block_def numeral_2_eq_2 numeral_3_eq_3)
  show ?thesis
    unfolding nth using b1(1) b2(1) b3(1) tm len by blast
qed

text \<open>The theorem at an endpoint that answers "4" to every request.\<close>

theorem diagnostic_run_witness:
  "\<exists>b1 b2 b3. result_block b1 \<and> result_block b2 \<and> result_block b3 \<and>
           test_main no_env post_four =
             (Returned,
              PrintTestBanner (os_getenv no_env OLLAMA_BASE_URL default_url)
                              (os_getenv no_env OLLAMA_MODEL default_model)
              # test_block no_env 1 (test_queries ! 0) b1
              @ test_block no_env 2 (test_queries ! 1) b2
              @ test_block no_env 3 (test_queries ! 2) b3)
           \<and> length test_queries = 3"
proof -
  have h: "\<forall>i url p e. post_four i url p = Raises e \<longrightarrow> is_Exception e"
    by (simp add: post_four_def reply_with_def)
  show ?thesis
    using diagnostic_run [OF h, of no_env] by blast
qed

text \<open>
  C9. Two successive calls of \<open>get_llm_response\<close> with the same utterance against the
  same endpoint function return the same result and emit the same events, the first call
  leaving the agent as it was; each call sends the payload built from the model and the
  utterance; and the outcome depends on the endpoint only through its answer to that
  request.
\<close>

theorem get_llm_response_idempotent:
  assumes "get_llm_response post a utt = (r1, a1, t1)"
    and "get_llm_response post a1 utt = (r2, a2, t2)"
  shows "r2 = r1 \<and> t2 = t1 \<and> a1 = a \<and> a2 = a
       \<and> (\<exists>rest. t1 = [PrintSending (model a),
                        HttpPost (ollama_url a @ ascii ''/chat'') (chat_payload (model a) utt)]
                       @ rest)
       \<and> (\<forall>post'. post' (ollama_url a @ ascii ''/chat'') (chat_payload (model a) utt)
                    = post (ollama_url a @ ascii ''/chat'') (chat_payload (model a) utt)
            \<longrightarrow> get_llm_response post' a utt = (r1, a1, t1))"
proof -
  from assms(1) have a1: "a1 = a" by (rule get_llm_response_self)
  with assms have same: "r2 = r1 \<and> t2 = t1 \<and> a2 = a" by simp
  have shape: "\<exists>rest. t1 = [PrintSending (model a),
                        HttpPost (ollama_url a @ ascii ''/chat'') (chat_payload (model a) utt)]
                       @ rest"
    using assms(1)
    by (auto simp: get_llm_response_def llm_except_def Let_def
             split: http_outcome.splits if_splits sum.splits)
  have dep: "get_llm_response post' a utt = (r1, a1, t1)"
    if "post' (ollama_url a @ ascii ''/chat'') (chat_payload (model a) utt)
          = post (ollama_url a @ ascii ''/chat'') (chat_payload (model a) utt)" for post'
    using that assms(1) by (simp add: get_llm_response_def Let_def)
  show ?thesis using a1 same shape dep by blast
qed

text \<open>The theorem at two calls against the endpoint that answers "4".\<close>

theorem get_llm_response_idempotent_witness:
  "get_llm_response (post_four 1) agent0 (ascii ''hi'') =
     (Inr (PStr (ascii ''4'')), agent0,
      [PrintSending default_model,
       HttpPost (default_url @ ascii ''/chat'') (chat_payload default_model (ascii ''hi''))])
   \<and> get_llm_response (post_four 2) agent0 (ascii ''hi'') =
     (Inr (PStr (ascii ''4'')), agent0,
      [PrintSending default_model,
       HttpPost (default_url @ ascii ''/chat'') (chat_payload default_model (ascii ''hi''))])"
proof -
  have h: "get_llm_response (post_four 1) agent0 (ascii ''hi'') =
     (Inr (PStr (ascii ''4'')), agent0,
      [PrintSending default_model,
       HttpPost (default_url @ ascii ''/chat'') (chat_payload default_model (ascii ''hi''))])"
    by (simp add: get_llm_response_def extract_content_def dict_get_def post_four_def
                  reply_with_def content_body_def agent0_def)
  have p: "post_four 2 (ollama_url agent0 @ ascii ''/chat'')
             (chat_payload (model agent0) (ascii ''hi''))
           = post_four 1 (ollama_url agent0 @ ascii ''/chat'')
               (chat_payload (model agent0) (ascii ''hi''))"
    by (simp add: post_four_def)
  from get_llm_response_idempotent [OF h h] p
  have "get_llm_response (post_four 2) agent0 (ascii ''hi'') =
     (Inr (PStr (ascii ''4'')), agent0,
      [PrintSending default_model,
       HttpPost (default_url @ ascii ''/chat'') (chat_payload default_model (ascii ''hi''))])"
    by blast
  with h show ?thesis by simp
qed

text \<open>
  C10. If the chat endpoint returns status 200 with \<open>message.content\<close> present and equal
  to the empty string, \<open>get_llm_response\<close> returns the empty string, and
  \<open>process_voice_command\<close> treats the pass as failed: it returns \<open>None\<close> and prints no
  reply.
\<close>

theorem empty_content_is_no_reply:
  assumes "env_capture io = Captured" and "env_recognize io = Recognized utt"
    and "env_post io (ollama_url a @ ascii ''/chat'') (chat_payload (model a) utt) = Response r"
    and "status_code r = 200" and "resp_json r = Some body"
    and "message_content body = Some (PStr [])"
  shows "fst (get_llm_response (env_post io) a utt) = Inr (PStr [])
       \<and> fst (process_voice_command io a) = Inr PNone
       \<and> (\<forall>v. PrintAnswer v \<notin> set (snd (snd (process_voice_command io a))))"
proof -
  have ex: "extract_content r = Inr (PStr [])"
    using assms(5,6) by (rule extract_present)
  have g: "get_llm_response (env_post io) a utt =
           (Inr (PStr []), a,
            [PrintSending (model a),
             HttpPost (ollama_url a @ ascii ''/chat'') (chat_payload (model a) utt)])"
    using assms(3,4) ex by (rule get_llm_response_ok)
  show ?thesis
    using assms(1,2) g by (simp add: process_voice_command_def listen_def)
qed

text \<open>The theorem at a pass whose reply is the empty string.\<close>

theorem empty_content_is_no_reply_witness:
  "env_capture (io_reply []) = Captured
   \<and> env_recognize (io_reply []) = Recognized (ascii ''hi'')
   \<and> message_content (content_body (PStr [])) = Some (PStr [])
   \<and> fst (get_llm_response (env_post (io_reply [])) agent0 (ascii ''hi'')) = Inr (PStr [])
   \<and> fst (process_voice_command (io_reply []) agent0) = Inr PNone
   \<and> (\<forall>v. PrintAnswer v \<notin> set (snd (snd (process_voice_command (io_reply []) agent0))))"
proof -
  have c: "env_capture (io_reply []) = Captured"
    and r: "env_recognize (io_reply []) = Recognized (ascii ''hi'')"
    by (simp_all add: io_reply_def)
  have p: \<open>env_post (io_reply []) (ollama_url agent0 @ ascii ''/chat'')
             (chat_payload (model agent0) (ascii ''hi''))
           = Response \<lparr>status_code = 200,
                       resp_text = ascii ''{"message":{"content":"'' @ [] @ ascii ''"}}'',
                       resp_json = Some (content_body (PStr []))\<rparr>\<close>
    by (simp add: io_reply_def reply_with_def)
  have m: "message_content (content_body (PStr [])) = Some (PStr [])"
    by (simp add: message_content_def content_body_def)
  show ?thesis
    using c r p m
          empty_content_is_no_reply
            [where io = "io_reply []" and a = agent0 and utt = "ascii ''hi''"
               and body = "content_body (PStr [])"
               and r = \<open>\<lparr>status_code = 200,
                          resp_text = ascii ''{"message":{"content":"'' @ [] @ ascii ''"}}'',
                          resp_json = Some (content_body (PStr []))\<rparr>\<close>]
    by simp
qed

end
